theory Spec2Isabelle
  imports Main
begin

section \<open>Python values, exceptions and the JSON encoder\<close>

text \<open>
  The handler of \<^verbatim>\<open>src/lambda.py\<close> receives an event that the platform has decoded
  from JSON, so the values in play are the Python images of JSON values, together with
  \<^verbatim>\<open>decimal.Decimal\<close>, which is what the boto3 table resource hands back for a stored
  number. A \<^verbatim>\<open>str\<close> is a \<open>string\<close>, one \<open>char\<close> per code point below 256; a float and
  a Decimal are carried as the text Python prints for them, since the handler never
  computes with either. A \<^verbatim>\<open>dict\<close> with string keys is an association list in insertion
  order.
\<close>

datatype pyval =
    PNone
  | PBool bool
  | PInt int
  | PFloat string
  | PDecimal string
  | PStr string
  | PList "pyval list"
  | PDict "(string \<times> pyval) list"

text \<open>
  Every exception that occurs here derives from \<^verbatim>\<open>Exception\<close>, which is what the two
  \<^verbatim>\<open>except Exception as e\<close> clauses catch. \<open>KeyError\<close> carries the missing key, the
  others their message.
\<close>

datatype exn =
    KeyError string
  | TypeError string
  | JSONDecodeError string
  | ClientError string
  | OtherException string

text \<open>
  \<^verbatim>\<open>str(e)\<close>. For a \<^verbatim>\<open>KeyError\<close> it is the \<^verbatim>\<open>repr\<close> of the key; the keys looked up by
  the handler are the literals \<^verbatim>\<open>'requestContext'\<close>, \<^verbatim>\<open>'http'\<close>, \<^verbatim>\<open>'method'\<close>,
  \<^verbatim>\<open>'body'\<close>, \<^verbatim>\<open>'user_id'\<close>, \<^verbatim>\<open>'name'\<close>, \<^verbatim>\<open>'queryStringParameters'\<close> and \<^verbatim>\<open>'id'\<close>,
  whose \<^verbatim>\<open>repr\<close> is the key between single quotes.
\<close>

fun str_exn :: "exn \<Rightarrow> string" where
  "str_exn (KeyError k) = [CHR 0x27] @ k @ [CHR 0x27]"
| "str_exn (TypeError m) = m"
| "str_exn (JSONDecodeError m) = m"
| "str_exn (ClientError m) = m"
| "str_exn (OtherException m) = m"

fun type_name :: "pyval \<Rightarrow> string" where
  "type_name PNone = ''NoneType''"
| "type_name (PBool _) = ''bool''"
| "type_name (PInt _) = ''int''"
| "type_name (PFloat _) = ''float''"
| "type_name (PDecimal _) = ''decimal.Decimal''"
| "type_name (PStr _) = ''str''"
| "type_name (PList _) = ''list''"
| "type_name (PDict _) = ''dict''"

text \<open>\<^verbatim>\<open>type(v).__name__\<close>, which leaves the module out.\<close>

definition class_name :: "pyval \<Rightarrow> string" where
  "class_name v = (case v of PDecimal _ \<Rightarrow> ''Decimal'' | _ \<Rightarrow> type_name v)"

text \<open>
  \<^verbatim>\<open>v[k]\<close> for a string literal \<open>k\<close>: a dict raises \<^verbatim>\<open>KeyError\<close> on a missing key, every
  other value raises \<^verbatim>\<open>TypeError\<close> (the messages are CPython's, 3.11 and later).
\<close>

fun subscript :: "pyval \<Rightarrow> string \<Rightarrow> exn + pyval" where
  "subscript (PDict kvs) k =
     (case map_of kvs k of None \<Rightarrow> Inl (KeyError k) | Some v \<Rightarrow> Inr v)"
| "subscript (PStr _) k = Inl (TypeError (''string indices must be integers, not '' @ [CHR 0x27] @ ''str'' @ [CHR 0x27]))"
| "subscript (PList _) k = Inl (TypeError ''list indices must be integers or slices, not str'')"
| "subscript v k = Inl (TypeError ([CHR 0x27] @ type_name v @ [CHR 0x27] @ '' object is not subscriptable''))"

subsection \<open>\<^verbatim>\<open>json.dumps\<close>\<close>

text \<open>
  The encoder with its default arguments (\<^verbatim>\<open>ensure_ascii=True\<close>, separators \<^verbatim>\<open>', '\<close> and
  \<^verbatim>\<open>': '\<close>). A character outside the printable ASCII range is written as \<^verbatim>\<open>\uXXXX\<close>.
\<close>

definition hex_digit :: "nat \<Rightarrow> char" where
  "hex_digit n = (if n < 10 then char_of (48 + n) else char_of (87 + n))"

definition escape_char :: "char \<Rightarrow> string" where
  "escape_char c =
     (if c = CHR 0x22 then [CHR 0x5C, CHR 0x22]
      else if c = CHR 0x5C then [CHR 0x5C, CHR 0x5C]
      else if c = CHR 0x0A then [CHR 0x5C, CHR ''n'']
      else if c = CHR 0x0D then [CHR 0x5C, CHR ''r'']
      else if c = CHR 0x09 then [CHR 0x5C, CHR ''t'']
      else if c = CHR 0x08 then [CHR 0x5C, CHR ''b'']
      else if c = CHR 0x0C then [CHR 0x5C, CHR ''f'']
      else if 32 \<le> (of_char c :: nat) \<and> (of_char c :: nat) \<le> 126 then [c]
      else [CHR 0x5C, CHR ''u'', CHR ''0'', CHR ''0'',
            hex_digit ((of_char c :: nat) div 16), hex_digit ((of_char c :: nat) mod 16)])"

definition json_dumps_str :: "string \<Rightarrow> string" where
  "json_dumps_str s = [CHR 0x22] @ concat (map escape_char s) @ [CHR 0x22]"

fun dec_nat :: "nat \<Rightarrow> string" where
  "dec_nat n = (if n < 10 then [char_of (48 + n)] else dec_nat (n div 10) @ [char_of (48 + n mod 10)])"

declare dec_nat.simps [simp del]

definition dec_int :: "int \<Rightarrow> string" where
  "dec_int i = (if i < 0 then CHR ''-'' # dec_nat (nat (- i)) else dec_nat (nat i))"

text \<open>The first failure in a left-to-right traversal, as an exception leaves a loop.\<close>

fun collect :: "(exn + 'a) list \<Rightarrow> exn + 'a list" where
  "collect [] = Inr []"
| "collect (Inl e # _) = Inl e"
| "collect (Inr x # rs) = (case collect rs of Inl e \<Rightarrow> Inl e | Inr xs \<Rightarrow> Inr (x # xs))"

fun join :: "string \<Rightarrow> string list \<Rightarrow> string" where
  "join sep [] = []"
| "join sep [s] = s"
| "join sep (s # t # ss) = s @ sep @ join sep (t # ss)"

fun json_dumps :: "pyval \<Rightarrow> exn + string" where
  "json_dumps PNone = Inr ''null''"
| "json_dumps (PBool b) = Inr (if b then ''true'' else ''false'')"
| "json_dumps (PInt i) = Inr (dec_int i)"
| "json_dumps (PFloat t) =
     Inr (if t = ''nan'' then ''NaN'' else if t = ''inf'' then ''Infinity''
          else if t = ''-inf'' then ''-Infinity'' else t)"
| "json_dumps (PDecimal _) = Inl (TypeError ''Object of type Decimal is not JSON serializable'')"
| "json_dumps (PStr s) = Inr (json_dumps_str s)"
| "json_dumps (PList xs) =
     (case collect (map json_dumps xs) of
        Inl e \<Rightarrow> Inl e
      | Inr ts \<Rightarrow> Inr (''['' @ join '', '' ts @ '']''))"
| "json_dumps (PDict kvs) =
     (case collect (map (\<lambda>kv. case json_dumps (snd kv) of
                                 Inl e \<Rightarrow> Inl e
                               | Inr t \<Rightarrow> Inr (json_dumps_str (fst kv) @ '': '' @ t)) kvs) of
        Inl e \<Rightarrow> Inl e
      | Inr ts \<Rightarrow> Inr (''{'' @ join '', '' ts @ ''}''))"

subsection \<open>\<^verbatim>\<open>repr\<close>, \<^verbatim>\<open>str\<close> and f-strings\<close>

text \<open>
  \<^verbatim>\<open>repr\<close> of a \<^verbatim>\<open>str\<close> puts it between single quotes, or between double quotes when
  it holds a single quote and no double quote, and escapes the quote, the backslash and
  what is not printable. Among the code points below 256 the printable ones are 32 to
  126 and 161 to 255 without 173.
\<close>

definition py_printable :: "char \<Rightarrow> bool" where
  "py_printable c \<longleftrightarrow>
     (32 \<le> (of_char c :: nat) \<and> (of_char c :: nat) \<le> 126)
     \<or> (161 \<le> (of_char c :: nat) \<and> (of_char c :: nat) \<noteq> 173)"

definition repr_char :: "char \<Rightarrow> char \<Rightarrow> string" where
  "repr_char quote c =
     (if c = quote \<or> c = CHR 0x5C then [CHR 0x5C, c]
      else if c = CHR 0x09 then [CHR 0x5C, CHR ''t'']
      else if c = CHR 0x0A then [CHR 0x5C, CHR ''n'']
      else if c = CHR 0x0D then [CHR 0x5C, CHR ''r'']
      else if py_printable c then [c]
      else [CHR 0x5C, CHR ''x'',
            hex_digit ((of_char c :: nat) div 16), hex_digit ((of_char c :: nat) mod 16)])"

definition repr_str :: "string \<Rightarrow> string" where
  "repr_str s =
     (let quote = (if CHR 0x27 \<in> set s \<and> CHR 0x22 \<notin> set s then CHR 0x22 else CHR 0x27)
      in [quote] @ concat (map (repr_char quote) s) @ [quote])"

fun py_repr :: "pyval \<Rightarrow> string" where
  "py_repr PNone = ''None''"
| "py_repr (PBool b) = (if b then ''True'' else ''False'')"
| "py_repr (PInt i) = dec_int i"
| "py_repr (PFloat t) = t"
| "py_repr (PDecimal t) = ''Decimal('' @ [CHR 0x27] @ t @ [CHR 0x27] @ '')''"
| "py_repr (PStr s) = repr_str s"
| "py_repr (PList xs) = ''['' @ join '', '' (map py_repr xs) @ '']''"
| "py_repr (PDict kvs) =
     ''{'' @ join '', '' (map (\<lambda>kv. repr_str (fst kv) @ '': '' @ py_repr (snd kv)) kvs) @ ''}''"

text \<open>
  A replacement field \<^verbatim>\<open>{v}\<close> of an f-string writes \<^verbatim>\<open>str(v)\<close>: a \<^verbatim>\<open>str\<close> as it is, a
  Decimal as its digits, any other value here as its \<^verbatim>\<open>repr\<close>.
\<close>

definition format_value :: "pyval \<Rightarrow> string" where
  "format_value v = (case v of PStr s \<Rightarrow> s | PDecimal t \<Rightarrow> t | _ \<Rightarrow> py_repr v)"

section \<open>The collaborators: JSON decoder and table\<close>

text \<open>
  What the handler calls but the repository does not contain is taken as a parameter of
  one invocation:
  \<^item> \<open>json_loads\<close> is \<^verbatim>\<open>json.loads\<close> on a \<^verbatim>\<open>str\<close>: the decoded value, or the exception the
    decoder raises;
  \<^item> \<open>store_fault\<close> says whether the table call of this invocation is refused for a reason
    of the service or of the client library (throttling, permission denial, connectivity,
    an item the service does not accept), and with which exception.
\<close>

datatype store_call =
    PutItem "(string \<times> pyval) list"
  | GetItem "(string \<times> pyval) list"

record env =
  json_loads :: "string \<Rightarrow> exn + pyval"
  store_fault :: "store_call \<Rightarrow> exn option"

text \<open>\<^verbatim>\<open>json.loads(v)\<close>: anything but a \<^verbatim>\<open>str\<close> among the values of an event is a \<^verbatim>\<open>TypeError\<close>.\<close>

definition loads :: "env \<Rightarrow> pyval \<Rightarrow> exn + pyval" where
  "loads env v =
     (case v of
        PStr s \<Rightarrow> json_loads env s
      | _ \<Rightarrow> Inl (TypeError (''the JSON object must be str, bytes or bytearray, not '' @ class_name v)))"

subsection \<open>The table\<close>

text \<open>
  Modelled from the spec: the key-value store behind \<^verbatim>\<open>table.put_item\<close> and
  \<^verbatim>\<open>table.get_item\<close> is an external collaborator with the two operations write-record
  and read-record-by-key, each of which succeeds or fails; \<open>UserID\<close>, a string, is the
  unique key, and a write creates the record or replaces it whole.

  The state of the table is its content, a map from the key string to the item as a read
  returns it, and the list of the calls made on the handle so far. A call is recorded when
  it is made, whatever its outcome, and a failed write leaves the content as it was.

  The source names the collaborator in lines 24 to 31: a boto3 table resource over
  DynamoDB. What the model takes from there is that a stored number is read back as a
  \<^verbatim>\<open>Decimal\<close>, and when a call fails:
  \<^item> in the client, when the value holds a float, which the serializer of the resource
    refuses;
  \<^item> by \<open>store_fault\<close>;
  \<^item> in the service, when the key attribute is not a non-empty string: DynamoDB checks the
    key against the key schema and accepts no empty string as a key.
\<close>

record table =
  items :: "string \<rightharpoonup> pyval"
  calls :: "store_call list"

fun has_float :: "pyval \<Rightarrow> bool" where
  "has_float (PFloat _) = True"
| "has_float (PList xs) = list_ex has_float xs"
| "has_float (PDict kvs) = list_ex (\<lambda>kv. has_float (snd kv)) kvs"
| "has_float _ = False"

fun as_read_back :: "pyval \<Rightarrow> pyval" where
  "as_read_back (PInt i) = PDecimal (dec_int i)"
| "as_read_back (PList xs) = PList (map as_read_back xs)"
| "as_read_back (PDict kvs) = PDict (map (\<lambda>kv. (fst kv, as_read_back (snd kv))) kvs)"
| "as_read_back v = v"

definition serialize :: "pyval \<Rightarrow> exn + pyval" where
  "serialize v =
     (if has_float v then Inl (TypeError ''Float types are not supported. Use Decimal types instead.'')
      else Inr (as_read_back v))"

definition validation_error :: "string \<Rightarrow> exn" where
  "validation_error operation =
     ClientError (''An error occurred (ValidationException) when calling the '' @ operation
                  @ '' operation: One or more parameter values are not valid'')"

definition put_item :: "env \<Rightarrow> table \<Rightarrow> (string \<times> pyval) list \<Rightarrow> (exn + unit) \<times> table" where
  "put_item env tbl item =
     (let tbl1 = tbl\<lparr>calls := calls tbl @ [PutItem item]\<rparr> in
      case serialize (PDict item) of
        Inl e \<Rightarrow> (Inl e, tbl1)
      | Inr stored \<Rightarrow>
          (case store_fault env (PutItem item) of
             Some e \<Rightarrow> (Inl e, tbl1)
           | None \<Rightarrow>
               (case map_of item ''UserID'' of
                  Some (PStr k) \<Rightarrow>
                    if k = [] then (Inl (validation_error ''PutItem''), tbl1)
                    else (Inr (), tbl1\<lparr>items := (items tbl1)(k \<mapsto> stored)\<rparr>)
                | _ \<Rightarrow> (Inl (validation_error ''PutItem''), tbl1))))"

text \<open>
  The result of a read is the \<^verbatim>\<open>'Item'\<close> entry of the response, \<open>None\<close> when the response
  has no such entry.
\<close>

definition get_item :: "env \<Rightarrow> table \<Rightarrow> (string \<times> pyval) list \<Rightarrow> (exn + pyval option) \<times> table" where
  "get_item env tbl key =
     (let tbl1 = tbl\<lparr>calls := calls tbl @ [GetItem key]\<rparr> in
      case serialize (PDict key) of
        Inl e \<Rightarrow> (Inl e, tbl1)
      | Inr _ \<Rightarrow>
          (case store_fault env (GetItem key) of
             Some e \<Rightarrow> (Inl e, tbl1)
           | None \<Rightarrow>
               (case map_of key ''UserID'' of
                  Some (PStr k) \<Rightarrow>
                    if k = [] then (Inl (validation_error ''GetItem''), tbl1)
                    else (Inr (items tbl1 k), tbl1)
                | _ \<Rightarrow> (Inl (validation_error ''GetItem''), tbl1))))"

section \<open>The handler\<close>

record response =
  statusCode :: int
  body :: string

text \<open>Line 58: \<^verbatim>\<open>event['requestContext']['http']['method']\<close>, outside any \<^verbatim>\<open>try\<close>.\<close>

definition get_method :: "pyval \<Rightarrow> exn + pyval" where
  "get_method event =
     (case subscript event ''requestContext'' of
        Inl e \<Rightarrow> Inl e
      | Inr rc \<Rightarrow>
          (case subscript rc ''http'' of
             Inl e \<Rightarrow> Inl e
           | Inr h \<Rightarrow> subscript h ''method''))"

text \<open>Lines 70 to 82, the body of the \<^verbatim>\<open>try\<close> of the POST branch.\<close>

definition post_try :: "env \<Rightarrow> table \<Rightarrow> pyval \<Rightarrow> (exn + response) \<times> table" where
  "post_try env tbl event =
     (case subscript event ''body'' of
        Inl e \<Rightarrow> (Inl e, tbl)
      | Inr raw \<Rightarrow>
     (case loads env raw of
        Inl e \<Rightarrow> (Inl e, tbl)
      | Inr parsed \<Rightarrow>
     (case subscript parsed ''user_id'' of
        Inl e \<Rightarrow> (Inl e, tbl)
      | Inr user_id \<Rightarrow>
     (case subscript parsed ''name'' of
        Inl e \<Rightarrow> (Inl e, tbl)
      | Inr name \<Rightarrow>
     (case put_item env tbl [(''UserID'', user_id), (''Name'', name)] of
        (Inl e, tbl') \<Rightarrow> (Inl e, tbl')
      | (Inr _, tbl') \<Rightarrow>
          (Inr \<lparr>statusCode = 200,
                body = json_dumps_str (''User '' @ format_value name @ '' saved successfully'')\<rparr>,
           tbl'))))))"

text \<open>Lines 97 to 108, the body of the \<^verbatim>\<open>try\<close> of the GET branch.\<close>

definition get_try :: "env \<Rightarrow> table \<Rightarrow> pyval \<Rightarrow> (exn + response) \<times> table" where
  "get_try env tbl event =
     (case subscript event ''queryStringParameters'' of
        Inl e \<Rightarrow> (Inl e, tbl)
      | Inr params \<Rightarrow>
     (case subscript params ''id'' of
        Inl e \<Rightarrow> (Inl e, tbl)
      | Inr user_id \<Rightarrow>
     (case get_item env tbl [(''UserID'', user_id)] of
        (Inl e, tbl') \<Rightarrow> (Inl e, tbl')
      | (Inr (Some item), tbl') \<Rightarrow>
          (case json_dumps item of
             Inl e \<Rightarrow> (Inl e, tbl')
           | Inr text \<Rightarrow> (Inr \<lparr>statusCode = 200, body = text\<rparr>, tbl'))
      | (Inr None, tbl') \<Rightarrow>
          (Inr \<lparr>statusCode = 404,
                body = json_dumps_str (''User '' @ format_value user_id @ '' not found'')\<rparr>,
           tbl'))))"

text \<open>
  \<^verbatim>\<open>except Exception as e: return {'statusCode': 500, 'body': json.dumps(str(e))}\<close>,
  the same clause in both branches.
\<close>

definition except_500 :: "(exn + response) \<times> table \<Rightarrow> (exn + response) \<times> table" where
  "except_500 r =
     (case r of
        (Inl e, tbl') \<Rightarrow> (Inr \<lparr>statusCode = 500, body = json_dumps_str (str_exn e)\<rparr>, tbl')
      | (Inr resp, tbl') \<Rightarrow> (Inr resp, tbl'))"

text \<open>
  The handler. Its result is the response it returns, or \<open>Inl\<close> the exception that leaves
  it, and the table afterwards. The two \<^verbatim>\<open>print\<close> calls only write to the log and are left
  out; \<^verbatim>\<open>json.dumps(event)\<close> in the first of them cannot fail on a decoded JSON value.
  \<open>context\<close> is not used.
\<close>

definition lambda_handler :: "env \<Rightarrow> table \<Rightarrow> pyval \<Rightarrow> 'ctx \<Rightarrow> (exn + response) \<times> table" where
  "lambda_handler env tbl event context =
     (case get_method event of
        Inl e \<Rightarrow> (Inl e, tbl)
      | Inr http_method \<Rightarrow>
          if http_method = PStr ''POST'' then except_500 (post_try env tbl event)
          else if http_method = PStr ''GET'' then except_500 (get_try env tbl event)
          else (Inr \<lparr>statusCode = 400, body = json_dumps_str ''Invalid HTTP method''\<rparr>, tbl))"

text \<open>The item the POST branch writes when both fields of the body are strings.\<close>

definition user_item :: "string \<Rightarrow> string \<Rightarrow> (string \<times> pyval) list" where
  "user_item u n = [(''UserID'', PStr u), (''Name'', PStr n)]"

subsection \<open>A concrete environment and concrete requests\<close>

text \<open>
  For evaluating the handler: a decoder that knows the request bodies used below and
  answers any other text with the error of \<^verbatim>\<open>json.loads\<close> on a text that starts with no
  JSON value, a service that refuses nothing, an empty table, and API Gateway events that
  carry a method and the given further entries.
\<close>

definition sample_loads :: "string \<Rightarrow> exn + pyval" where
  "sample_loads s =
     (if s = ''{\"user_id\": \"1\", \"name\": \"A\"}''
        then Inr (PDict [(''user_id'', PStr ''1''), (''name'', PStr ''A'')])
      else if s = ''{\"user_id\": \"1\", \"name\": \"B\"}''
        then Inr (PDict [(''user_id'', PStr ''1''), (''name'', PStr ''B'')])
      else if s = ''{\"user_id\": \"1\"}''
        then Inr (PDict [(''user_id'', PStr ''1'')])
      else Inl (JSONDecodeError ''Expecting value: line 1 column 1 (char 0)''))"

definition sample_env :: env where
  "sample_env = \<lparr>json_loads = sample_loads, store_fault = (\<lambda>_. None)\<rparr>"

definition empty_table :: table where
  "empty_table = \<lparr>items = Map.empty, calls = []\<rparr>"

definition request :: "string \<Rightarrow> (string \<times> pyval) list \<Rightarrow> pyval" where
  "request m entries =
     PDict ((''requestContext'', PDict [(''http'', PDict [(''method'', PStr m)])]) # entries)"

definition post_request :: "string \<Rightarrow> pyval" where
  "post_request text = request ''POST'' [(''body'', PStr text)]"

definition get_request :: "string \<Rightarrow> pyval" where
  "get_request k = request ''GET'' [(''queryStringParameters'', PDict [(''id'', PStr k)])]"

section \<open>Basic facts\<close>

lemma get_method_request: "get_method (request m entries) = Inr (PStr m)"
  by (simp add: get_method_def request_def)

lemma handler_post:
  "get_method event = Inr (PStr ''POST'') \<Longrightarrow>
   lambda_handler env tbl event ctx = except_500 (post_try env tbl event)"
  by (simp add: lambda_handler_def)

lemma handler_get:
  "get_method event = Inr (PStr ''GET'') \<Longrightarrow>
   lambda_handler env tbl event ctx = except_500 (get_try env tbl event)"
  by (simp add: lambda_handler_def)

lemma handler_other:
  "get_method event = Inr m \<Longrightarrow> m \<noteq> PStr ''POST'' \<Longrightarrow> m \<noteq> PStr ''GET'' \<Longrightarrow>
   lambda_handler env tbl event ctx =
     (Inr \<lparr>statusCode = 400, body = json_dumps_str ''Invalid HTTP method''\<rparr>, tbl)"
  by (simp add: lambda_handler_def)

lemma handler_raises:
  "get_method event = Inl e \<Longrightarrow> lambda_handler env tbl event ctx = (Inl e, tbl)"
  by (simp add: lambda_handler_def)

lemma json_dumps_PStr: "json_dumps (PStr s) = Inr (json_dumps_str s)"
  by simp

lemma dumps_invalid_method: "json_dumps_str ''Invalid HTTP method'' = ''\"Invalid HTTP method\"''"
  by code_simp

lemma serialize_user_item: "serialize (PDict (user_item u n)) = Inr (PDict (user_item u n))"
  by (simp add: serialize_def user_item_def)

lemma json_dumps_user_item:
  "json_dumps (PDict (user_item u n)) =
     Inr (''{\"UserID\": '' @ json_dumps_str u @ '', \"Name\": '' @ json_dumps_str n @ ''}'')"
proof -
  have "json_dumps_str ''UserID'' = ''\"UserID\"''" "json_dumps_str ''Name'' = ''\"Name\"''"
    by code_simp+
  then show ?thesis
    by (simp add: user_item_def)
qed

lemma put_item_accepted:
  "u \<noteq> [] \<Longrightarrow> store_fault env (PutItem (user_item u n)) = None \<Longrightarrow>
   put_item env tbl (user_item u n) =
     (Inr (), tbl\<lparr>calls := calls tbl @ [PutItem (user_item u n)],
                  items := (items tbl)(u \<mapsto> PDict (user_item u n))\<rparr>)"
  by (simp add: put_item_def serialize_user_item Let_def) (simp add: user_item_def)

lemma put_item_success_iff:
  "fst (put_item env tbl (user_item u n)) = Inr () \<longleftrightarrow>
   u \<noteq> [] \<and> store_fault env (PutItem (user_item u n)) = None"
  unfolding put_item_def Let_def serialize_user_item
  by (auto simp add: user_item_def split: option.splits)

lemma get_item_served:
  "k \<noteq> [] \<Longrightarrow> store_fault env (GetItem [(''UserID'', PStr k)]) = None \<Longrightarrow>
   get_item env tbl [(''UserID'', PStr k)] =
     (Inr (items tbl k), tbl\<lparr>calls := calls tbl @ [GetItem [(''UserID'', PStr k)]]\<rparr>)"
  by (simp add: get_item_def serialize_def Let_def)





lemma except_500_Inl: "except_500 (Inl e, t) = (Inr \<lparr>statusCode = 500, body = json_dumps_str (str_exn e)\<rparr>, t)"
  by (simp add: except_500_def)

lemma except_500_Inr: "except_500 (Inr r, t) = (Inr r, t)"
  by (simp add: except_500_def)

lemma fst_except_500_Inl:
  "fst x = Inl e \<Longrightarrow> fst (except_500 x) = Inr \<lparr>statusCode = 500, body = json_dumps_str (str_exn e)\<rparr>"
  by (cases x) (simp add: except_500_def)

lemma snd_except_500: "snd (except_500 x) = snd x"
  by (cases x) (auto simp add: except_500_def split: sum.splits)

lemma loads_PStr: "loads env (PStr text) = json_loads env text"
  by (simp add: loads_def)

lemma format_value_PStr: "format_value (PStr s) = s"
  by (simp add: format_value_def)

lemma post_try_parsed:
  assumes "subscript event ''body'' = Inr raw" and "loads env raw = Inr parsed"
    and "subscript parsed ''user_id'' = Inr uid" and "subscript parsed ''name'' = Inr nm"
  shows "post_try env tbl event =
          (case put_item env tbl [(''UserID'', uid), (''Name'', nm)] of
             (Inl e, tbl') \<Rightarrow> (Inl e, tbl')
           | (Inr _, tbl') \<Rightarrow>
               (Inr \<lparr>statusCode = 200,
                     body = json_dumps_str (''User '' @ format_value nm @ '' saved successfully'')\<rparr>,
                tbl'))"
  using assms by (simp add: post_try_def)

lemma post_try_fails_early:
  assumes "subscript event ''body'' = Inl e
     \<or> (\<exists>raw. subscript event ''body'' = Inr raw \<and>
           (loads env raw = Inl e
            \<or> (\<exists>parsed. loads env raw = Inr parsed \<and>
                  (subscript parsed ''user_id'' = Inl e
                   \<or> (\<exists>uid. subscript parsed ''user_id'' = Inr uid \<and>
                          subscript parsed ''name'' = Inl e)))))"
  shows "post_try env tbl event = (Inl e, tbl)"
  using assms by (auto simp add: post_try_def)

lemma post_try_write_fails:
  assumes "subscript event ''body'' = Inr raw" and "loads env raw = Inr parsed"
    and "subscript parsed ''user_id'' = Inr uid" and "subscript parsed ''name'' = Inr nm"
    and "fst (put_item env tbl [(''UserID'', uid), (''Name'', nm)]) = Inl e"
  shows "fst (post_try env tbl event) = Inl e"
  using assms(5) unfolding post_try_parsed [OF assms(1-4)]
  by (cases "put_item env tbl [(''UserID'', uid), (''Name'', nm)]") (auto split: sum.splits)

lemma get_item_frame:
  "items (snd (get_item env tbl key)) = items tbl
   \<and> calls (snd (get_item env tbl key)) = calls tbl @ [GetItem key]"
  by (auto simp add: get_item_def Let_def split: sum.splits option.splits pyval.splits)

lemma get_try_frame:
  "items (snd (get_try env tbl event)) = items tbl
   \<and> (calls (snd (get_try env tbl event)) = calls tbl
      \<or> (\<exists>key. calls (snd (get_try env tbl event)) = calls tbl @ [GetItem key]))"
proof (cases "subscript event ''queryStringParameters''")
  case (Inl e)
  then show ?thesis by (simp add: get_try_def)
next
  case params: (Inr params)
  show ?thesis
  proof (cases "subscript params ''id''")
    case (Inl e)
    with params show ?thesis by (simp add: get_try_def)
  next
    case (Inr user_id)
    obtain res t where g: "get_item env tbl [(''UserID'', user_id)] = (res, t)"
      by (cases "get_item env tbl [(''UserID'', user_id)]")
    with get_item_frame [of env tbl "[(''UserID'', user_id)]"]
    have t: "items t = items tbl" "calls t = calls tbl @ [GetItem [(''UserID'', user_id)]]"
      by simp_all
    have "snd (get_try env tbl event) = t"
      using params Inr g by (simp add: get_try_def split: sum.splits option.splits)
    with t show ?thesis by simp
  qed
qed

lemma get_try_calls_store:
  assumes "subscript event ''queryStringParameters'' = Inr params"
    and "subscript params ''id'' = Inr uid"
  shows "calls (snd (get_try env tbl event)) = calls tbl @ [GetItem [(''UserID'', uid)]]"
proof -
  obtain res t where g: "get_item env tbl [(''UserID'', uid)] = (res, t)"
    by (cases "get_item env tbl [(''UserID'', uid)]")
  then have "snd (get_try env tbl event) = t"
    using assms by (simp add: get_try_def split: sum.splits option.splits)
  with g get_item_frame [of env tbl "[(''UserID'', uid)]"] show ?thesis
    by simp
qed

lemma get_try_served:
  assumes "subscript event ''queryStringParameters'' = Inr params"
    and "subscript params ''id'' = Inr (PStr k)"
    and "k \<noteq> []" and "store_fault env (GetItem [(''UserID'', PStr k)]) = None"
  shows "get_try env tbl event =
           (case items tbl k of
              None \<Rightarrow>
                (Inr \<lparr>statusCode = 404, body = json_dumps_str (''User '' @ k @ '' not found'')\<rparr>,
                 tbl\<lparr>calls := calls tbl @ [GetItem [(''UserID'', PStr k)]]\<rparr>)
            | Some item \<Rightarrow>
                (case json_dumps item of
                   Inl e \<Rightarrow> (Inl e, tbl\<lparr>calls := calls tbl @ [GetItem [(''UserID'', PStr k)]]\<rparr>)
                 | Inr text \<Rightarrow>
                     (Inr \<lparr>statusCode = 200, body = text\<rparr>,
                      tbl\<lparr>calls := calls tbl @ [GetItem [(''UserID'', PStr k)]]\<rparr>)))"
  using assms(1,2)
  by (simp add: get_try_def get_item_served [OF assms(3,4)] format_value_PStr
      split: option.splits sum.splits)


lemma post_accepted:
  assumes "get_method event = Inr (PStr ''POST'')"
    and "subscript event ''body'' = Inr (PStr text)"
    and "json_loads env text = Inr parsed"
    and "subscript parsed ''user_id'' = Inr (PStr u)"
    and "subscript parsed ''name'' = Inr (PStr n)"
    and "u \<noteq> []" and "store_fault env (PutItem (user_item u n)) = None"
  shows "lambda_handler env tbl event ctx =
           (Inr \<lparr>statusCode = 200, body = json_dumps_str (''User '' @ n @ '' saved successfully'')\<rparr>,
            tbl\<lparr>calls := calls tbl @ [PutItem (user_item u n)],
                items := (items tbl)(u \<mapsto> PDict (user_item u n))\<rparr>)"
proof -
  have "post_try env tbl event =
          (case put_item env tbl (user_item u n) of
             (Inl e, tbl') \<Rightarrow> (Inl e, tbl')
           | (Inr _, tbl') \<Rightarrow>
               (Inr \<lparr>statusCode = 200,
                     body = json_dumps_str (''User '' @ format_value (PStr n) @ '' saved successfully'')\<rparr>,
                tbl'))"
    unfolding user_item_def
    by (rule post_try_parsed [OF assms(2) _ assms(4) assms(5)]) (simp add: loads_PStr assms(3))
  then show ?thesis
    by (simp add: handler_post [OF assms(1)] put_item_accepted [OF assms(6,7)] except_500_Inr
        format_value_PStr)
qed

lemma get_stored_user:
  assumes "get_method event = Inr (PStr ''GET'')"
    and "subscript event ''queryStringParameters'' = Inr params"
    and "subscript params ''id'' = Inr (PStr u)"
    and "u \<noteq> []" and "store_fault env (GetItem [(''UserID'', PStr u)]) = None"
    and "items tbl u = Some (PDict (user_item u n))"
  shows "fst (lambda_handler env tbl event ctx) =
           Inr \<lparr>statusCode = 200,
                body = ''{\"UserID\": '' @ json_dumps_str u @ '', \"Name\": '' @ json_dumps_str n @ ''}''\<rparr>"
proof -
  let ?tbl' = "tbl\<lparr>calls := calls tbl @ [GetItem [(''UserID'', PStr u)]]\<rparr>"
  have "get_try env tbl event =
          (case json_dumps (PDict (user_item u n)) of
             Inl e \<Rightarrow> (Inl e, ?tbl')
           | Inr text \<Rightarrow> (Inr \<lparr>statusCode = 200, body = text\<rparr>, ?tbl'))"
    by (simp only: get_try_served [OF assms(2-5)] assms(6) option.case)
  then show ?thesis
    by (simp only: json_dumps_user_item sum.case handler_get [OF assms(1)] except_500_Inr fst_conv)
qed

lemma sample_post_facts:
  "get_method (post_request text) = Inr (PStr ''POST'')"
  "subscript (post_request text) ''body'' = Inr (PStr text)"
  by (simp_all add: post_request_def get_method_request) (simp add: request_def)

lemma sample_get_facts:
  "get_method (get_request k) = Inr (PStr ''GET'')"
  "subscript (get_request k) ''queryStringParameters'' = Inr (PDict [(''id'', PStr k)])"
  "subscript (PDict [(''id'', PStr k)]) ''id'' = Inr (PStr k)"
  by (simp_all add: get_request_def get_method_request) (simp add: request_def)

lemma sample_loads_A:
  "json_loads sample_env ''{\"user_id\": \"1\", \"name\": \"A\"}''
     = Inr (PDict [(''user_id'', PStr ''1''), (''name'', PStr ''A'')])"
  by (simp add: sample_env_def sample_loads_def)

lemma sample_loads_B:
  "json_loads sample_env ''{\"user_id\": \"1\", \"name\": \"B\"}''
     = Inr (PDict [(''user_id'', PStr ''1''), (''name'', PStr ''B'')])"
  by (simp add: sample_env_def sample_loads_def)

lemma sample_no_fault: "store_fault sample_env c = None"
  by (simp add: sample_env_def)

section \<open>The request/response contract\<close>

subsection \<open>Exceptions at the boundary\<close>




subsection \<open>Unsupported methods\<close>

text \<open>
  C7: for every request whose method is neither GET nor POST the handler returns status
  400 with the body \<^verbatim>\<open>"Invalid HTTP method"\<close>, the JSON encoding of that string, and
  makes no call on the table: the table, its record of calls included, is the one
  it was given.
\<close>

theorem unsupported_method_400:
  assumes "get_method event = Inr m" and "m \<noteq> PStr ''POST''" and "m \<noteq> PStr ''GET''"
  shows "lambda_handler env tbl event ctx =
           (Inr \<lparr>statusCode = 400, body = ''\"Invalid HTTP method\"''\<rparr>, tbl)
         \<and> json_dumps (PStr ''Invalid HTTP method'') = Inr ''\"Invalid HTTP method\"''"
  using assms by (simp add: handler_other dumps_invalid_method)

theorem unsupported_method_400_witness:
  "get_method (request ''DELETE'' []) = Inr (PStr ''DELETE'')
   \<and> PStr ''DELETE'' \<noteq> PStr ''POST'' \<and> PStr ''DELETE'' \<noteq> PStr ''GET''
   \<and> lambda_handler sample_env empty_table (request ''DELETE'' []) () =
       (Inr \<lparr>statusCode = 400, body = ''\"Invalid HTTP method\"''\<rparr>, empty_table)"
  using unsupported_method_400
          [of "request ''DELETE'' []" "PStr ''DELETE''" sample_env empty_table "()"]
  by (simp add: get_method_request)

subsection \<open>Writing a user\<close>

text \<open>
  C3: for every POST request whose body parses as JSON with string fields \<open>user_id\<close> and
  \<open>name\<close>, and for which the write succeeds, the handler makes exactly one call on the
  table, the write of the item with key \<open>user_id\<close> and \<open>Name = name\<close>; afterwards the
  table holds exactly that item under \<open>user_id\<close>, whether or not it held one before;
  and the response is status 200 with the JSON-encoded string "User \<open>name\<close> saved
  successfully".
\<close>

theorem post_writes_once_and_reports:
  assumes "get_method event = Inr (PStr ''POST'')"
    and "subscript event ''body'' = Inr (PStr text)"
    and "json_loads env text = Inr parsed"
    and "subscript parsed ''user_id'' = Inr (PStr u)"
    and "subscript parsed ''name'' = Inr (PStr n)"
    and "fst (put_item env tbl (user_item u n)) = Inr ()"
  shows "lambda_handler env tbl event ctx =
           (Inr \<lparr>statusCode = 200, body = json_dumps_str (''User '' @ n @ '' saved successfully'')\<rparr>,
            tbl\<lparr>calls := calls tbl @ [PutItem (user_item u n)],
                items := (items tbl)(u \<mapsto> PDict (user_item u n))\<rparr>)"
proof -
  from assms(6) have "u \<noteq> []" and "store_fault env (PutItem (user_item u n)) = None"
    by (simp_all add: put_item_success_iff)
  with assms(1-5) show ?thesis
    by (rule post_accepted)
qed

theorem post_writes_once_and_reports_witness:
  "get_method (post_request ''{\"user_id\": \"1\", \"name\": \"A\"}'') = Inr (PStr ''POST'')
   \<and> fst (put_item sample_env empty_table (user_item ''1'' ''A'')) = Inr ()
   \<and> lambda_handler sample_env empty_table (post_request ''{\"user_id\": \"1\", \"name\": \"A\"}'') () =
        (Inr \<lparr>statusCode = 200, body = ''\"User A saved successfully\"''\<rparr>,
         \<lparr>items = [''1'' \<mapsto> PDict [(''UserID'', PStr ''1''), (''Name'', PStr ''A'')]],
          calls = [PutItem [(''UserID'', PStr ''1''), (''Name'', PStr ''A'')]]\<rparr>)"
proof -
  let ?text = "''{\"user_id\": \"1\", \"name\": \"A\"}''"
  let ?parsed = "PDict [(''user_id'', PStr ''1''), (''name'', PStr ''A'')]"
  have m: "get_method (post_request ?text) = Inr (PStr ''POST'')"
    by (simp add: post_request_def get_method_request)
  have b: "subscript (post_request ?text) ''body'' = Inr (PStr ?text)"
    by (simp add: post_request_def request_def)
  have l: "json_loads sample_env ?text = Inr ?parsed"
    by (simp add: sample_env_def sample_loads_def)
  have u: "subscript ?parsed ''user_id'' = Inr (PStr ''1'')" by simp
  have n: "subscript ?parsed ''name'' = Inr (PStr ''A'')" by simp
  have w: "fst (put_item sample_env empty_table (user_item ''1'' ''A'')) = Inr ()"
    by (simp add: put_item_success_iff sample_env_def)
  have d: "json_dumps_str ''User A saved successfully'' = ''\"User A saved successfully\"''"
    by code_simp
  show ?thesis
    using m w post_writes_once_and_reports [OF m b l u n w, of "()"]
    by (simp add: d empty_table_def user_item_def)
qed


text \<open>
  C5: for every POST request whose body is not valid JSON (the decoder raises), or parses
  to a value from which \<open>user_id\<close> or \<open>name\<close> cannot be taken, or for which the write
  fails, the handler returns status 500 and the JSON-encoded \<^verbatim>\<open>str(e)\<close> of the exception.
\<close>

theorem post_failure_500:
  assumes "get_method event = Inr (PStr ''POST'')"
    and "subscript event ''body'' = Inr raw"
    and "loads env raw = Inl e
         \<or> (\<exists>parsed. loads env raw = Inr parsed \<and>
               (subscript parsed ''user_id'' = Inl e
                \<or> (\<exists>uid. subscript parsed ''user_id'' = Inr uid \<and>
                       (subscript parsed ''name'' = Inl e
                        \<or> (\<exists>nm. subscript parsed ''name'' = Inr nm \<and>
                               fst (put_item env tbl [(''UserID'', uid), (''Name'', nm)]) = Inl e)))))"
  shows "fst (lambda_handler env tbl event ctx) =
           Inr \<lparr>statusCode = 500, body = json_dumps_str (str_exn e)\<rparr>
         \<and> json_dumps (PStr (str_exn e)) = Inr (json_dumps_str (str_exn e))"
proof -
  have "fst (post_try env tbl event) = Inl e"
    using assms(3)
  proof (elim disjE exE conjE)
    assume "loads env raw = Inl e"
    with assms(2) show ?thesis by (simp add: post_try_fails_early)
  next
    fix parsed assume "loads env raw = Inr parsed" "subscript parsed ''user_id'' = Inl e"
    with assms(2) show ?thesis by (simp add: post_try_fails_early)
  next
    fix parsed uid
    assume "loads env raw = Inr parsed" "subscript parsed ''user_id'' = Inr uid"
      "subscript parsed ''name'' = Inl e"
    with assms(2) show ?thesis by (simp add: post_try_fails_early)
  next
    fix parsed uid nm
    assume "loads env raw = Inr parsed" "subscript parsed ''user_id'' = Inr uid"
      "subscript parsed ''name'' = Inr nm"
      "fst (put_item env tbl [(''UserID'', uid), (''Name'', nm)]) = Inl e"
    with assms(2) show ?thesis by (rule post_try_write_fails)
  qed
  then show ?thesis
    by (simp add: handler_post [OF assms(1)] fst_except_500_Inl)
qed

theorem post_failure_500_witness:
  "get_method (post_request ''{\"user_id\": \"1\"}'') = Inr (PStr ''POST'')
   \<and> subscript (post_request ''{\"user_id\": \"1\"}'') ''body'' = Inr (PStr ''{\"user_id\": \"1\"}'')
   \<and> loads sample_env (PStr ''{\"user_id\": \"1\"}'') = Inr (PDict [(''user_id'', PStr ''1'')])
   \<and> subscript (PDict [(''user_id'', PStr ''1'')]) ''user_id'' = Inr (PStr ''1'')
   \<and> subscript (PDict [(''user_id'', PStr ''1'')]) ''name'' = Inl (KeyError ''name'')
   \<and> fst (lambda_handler sample_env empty_table (post_request ''{\"user_id\": \"1\"}'') ()) =
         Inr \<lparr>statusCode = 500, body = ''\"'name'\"''\<rparr>"
proof -
  let ?text = "''{\"user_id\": \"1\"}''"
  let ?parsed = "PDict [(''user_id'', PStr ''1'')]"
  have m: "get_method (post_request ?text) = Inr (PStr ''POST'')"
    by (simp add: post_request_def get_method_request)
  have b: "subscript (post_request ?text) ''body'' = Inr (PStr ?text)"
    by (simp add: post_request_def request_def)
  have l: "loads sample_env (PStr ?text) = Inr ?parsed"
    by (simp add: loads_def sample_env_def sample_loads_def)
  have u: "subscript ?parsed ''user_id'' = Inr (PStr ''1'')" by simp
  have n: "subscript ?parsed ''name'' = Inl (KeyError ''name'')" by simp
  have d: "json_dumps_str (str_exn (KeyError ''name'')) = ''\"'name'\"''"
    by code_simp
  show ?thesis
    using m b l u n d
      post_failure_500 [of "post_request ?text" "PStr ?text" sample_env "KeyError ''name''" empty_table "()"]
    by simp
qed

text \<open>
  C10: for every POST request whose body is not valid JSON or from which \<open>user_id\<close> or
  \<open>name\<close> cannot be taken, the 500 response comes with the table exactly as it was: its
  content is unchanged and no call was made on it.
\<close>

theorem rejected_post_writes_nothing:
  assumes "get_method event = Inr (PStr ''POST'')"
    and "subscript event ''body'' = Inr raw"
    and "loads env raw = Inl e
         \<or> (\<exists>parsed. loads env raw = Inr parsed \<and>
               (subscript parsed ''user_id'' = Inl e
                \<or> (\<exists>uid. subscript parsed ''user_id'' = Inr uid \<and>
                       subscript parsed ''name'' = Inl e)))"
  shows "lambda_handler env tbl event ctx =
           (Inr \<lparr>statusCode = 500, body = json_dumps_str (str_exn e)\<rparr>, tbl)"
proof -
  have "post_try env tbl event = (Inl e, tbl)"
    using assms(2,3) by (intro post_try_fails_early) blast
  then show ?thesis
    by (simp add: handler_post [OF assms(1)] except_500_Inl)
qed

theorem rejected_post_writes_nothing_witness:
  "get_method (post_request ''not json'') = Inr (PStr ''POST'')
   \<and> subscript (post_request ''not json'') ''body'' = Inr (PStr ''not json'')
   \<and> loads sample_env (PStr ''not json'') = Inl (JSONDecodeError ''Expecting value: line 1 column 1 (char 0)'')
   \<and> lambda_handler sample_env empty_table (post_request ''not json'') () =
        (Inr \<lparr>statusCode = 500, body = ''\"Expecting value: line 1 column 1 (char 0)\"''\<rparr>,
         empty_table)"
proof -
  let ?e = "JSONDecodeError ''Expecting value: line 1 column 1 (char 0)''"
  have m: "get_method (post_request ''not json'') = Inr (PStr ''POST'')"
    by (simp add: post_request_def get_method_request)
  have b: "subscript (post_request ''not json'') ''body'' = Inr (PStr ''not json'')"
    by (simp add: post_request_def request_def)
  have l: "loads sample_env (PStr ''not json'') = Inl ?e"
    by (simp add: loads_def sample_env_def sample_loads_def)
  have d: "json_dumps_str (str_exn ?e) = ''\"Expecting value: line 1 column 1 (char 0)\"''"
    by code_simp
  show ?thesis
    using m b l d
      rejected_post_writes_nothing [of "post_request ''not json''" "PStr ''not json''" sample_env ?e empty_table "()"]
    by simp
qed

subsection \<open>Requests that do not write\<close>

text \<open>
  C9: for every request whose method is GET, and every request whose method is neither
  GET nor POST, the content of the table after the request is the content before it, and
  the handler made no write call: it made no call at all, or the one read.
\<close>

theorem reads_and_other_methods_leave_store:
  assumes "get_method event = Inr m" and "m \<noteq> PStr ''POST''"
  shows "items (snd (lambda_handler env tbl event ctx)) = items tbl
         \<and> (calls (snd (lambda_handler env tbl event ctx)) = calls tbl
            \<or> (\<exists>key. calls (snd (lambda_handler env tbl event ctx)) = calls tbl @ [GetItem key]))"
proof (cases "m = PStr ''GET''")
  case True
  with assms have h: "snd (lambda_handler env tbl event ctx) = snd (get_try env tbl event)"
    by (simp add: handler_get snd_except_500)
  from get_try_frame [of env tbl event] show ?thesis
    unfolding h .
next
  case False
  with assms show ?thesis by (simp add: handler_other)
qed

theorem reads_and_other_methods_leave_store_witness:
  "get_method (get_request ''7'') = Inr (PStr ''GET'') \<and> PStr ''GET'' \<noteq> PStr ''POST''
   \<and> items (snd (lambda_handler sample_env empty_table (get_request ''7'') ())) = items empty_table
   \<and> calls (snd (lambda_handler sample_env empty_table (get_request ''7'') ()))
       = calls empty_table @ [GetItem [(''UserID'', PStr ''7'')]]"
proof -
  have m: "get_method (get_request ''7'') = Inr (PStr ''GET'')"
    by (simp add: get_request_def get_method_request)
  have "snd (get_try sample_env empty_table (get_request ''7''))
          = snd (get_item sample_env empty_table [(''UserID'', PStr ''7'')])"
    by (simp add: get_try_def get_request_def request_def split: prod.splits sum.splits option.splits)
  then have c: "calls (snd (lambda_handler sample_env empty_table (get_request ''7'') ()))
       = calls empty_table @ [GetItem [(''UserID'', PStr ''7'')]]"
    unfolding handler_get [OF m] snd_except_500 by (simp add: get_item_frame)
  show ?thesis
    using m c reads_and_other_methods_leave_store [OF m, of sample_env empty_table "()"]
    by simp
qed

subsection \<open>Reading a user\<close>






subsection \<open>Writing, then reading\<close>

text \<open>
  C2: for every pair of strings \<open>user_id\<close>, \<open>name\<close> that the table accepts, a POST request
  whose body decodes to an object with these two fields, followed by a GET request with
  \<open>id = user_id\<close> on the table the POST left, returns status 200 with the JSON encoding
  of the record \<^verbatim>\<open>{"UserID": user_id, "Name": name}\<close> as body.
\<close>

theorem post_then_get_round_trip:
  assumes "get_method post_event = Inr (PStr ''POST'')"
    and "subscript post_event ''body'' = Inr (PStr text)"
    and "json_loads env text = Inr parsed"
    and "subscript parsed ''user_id'' = Inr (PStr u)"
    and "subscript parsed ''name'' = Inr (PStr n)"
    and "u \<noteq> []" and "store_fault env (PutItem (user_item u n)) = None"
    and "get_method get_event = Inr (PStr ''GET'')"
    and "subscript get_event ''queryStringParameters'' = Inr params"
    and "subscript params ''id'' = Inr (PStr u)"
    and "store_fault env' (GetItem [(''UserID'', PStr u)]) = None"
  shows "fst (lambda_handler env' (snd (lambda_handler env tbl post_event ctx)) get_event ctx') =
           Inr \<lparr>statusCode = 200,
                body = ''{\"UserID\": '' @ json_dumps_str u @ '', \"Name\": '' @ json_dumps_str n @ ''}''\<rparr>
         \<and> json_dumps (PDict [(''UserID'', PStr u), (''Name'', PStr n)]) =
             Inr (''{\"UserID\": '' @ json_dumps_str u @ '', \"Name\": '' @ json_dumps_str n @ ''}'')"
proof -
  have "items (snd (lambda_handler env tbl post_event ctx)) u = Some (PDict (user_item u n))"
    by (simp add: post_accepted [OF assms(1-7)])
  from get_stored_user [OF assms(8-10) assms(6) assms(11) this]
  show ?thesis
    using json_dumps_user_item [of u n] by (simp add: user_item_def)
qed


theorem post_then_get_round_trip_witness:
  "get_method (post_request ''{\"user_id\": \"1\", \"name\": \"A\"}'') = Inr (PStr ''POST'')
   \<and> json_loads sample_env ''{\"user_id\": \"1\", \"name\": \"A\"}''
       = Inr (PDict [(''user_id'', PStr ''1''), (''name'', PStr ''A'')])
   \<and> get_method (get_request ''1'') = Inr (PStr ''GET'')
   \<and> fst (lambda_handler sample_env
             (snd (lambda_handler sample_env empty_table
                     (post_request ''{\"user_id\": \"1\", \"name\": \"A\"}'') ()))
             (get_request ''1'') ())
       = Inr \<lparr>statusCode = 200, body = ''{\"UserID\": \"1\", \"Name\": \"A\"}''\<rparr>"
proof -
  let ?text = "''{\"user_id\": \"1\", \"name\": \"A\"}''"
  let ?parsed = "PDict [(''user_id'', PStr ''1''), (''name'', PStr ''A'')]"
  have u: "subscript ?parsed ''user_id'' = Inr (PStr ''1'')" by simp
  have n: "subscript ?parsed ''name'' = Inr (PStr ''A'')" by simp
  have k: "''1'' \<noteq> []" by simp
  have d: "json_dumps_str ''1'' = ''\"1\"''" "json_dumps_str ''A'' = ''\"A\"''" by code_simp+
  show ?thesis
    using sample_post_facts(1) [of ?text] sample_loads_A sample_get_facts(1) [of "''1''"] d
      post_then_get_round_trip
        [OF sample_post_facts [of ?text] sample_loads_A u n k sample_no_fault
            sample_get_facts [of "''1''"] sample_no_fault,
         where tbl = empty_table and ctx = "()" and ctx' = "()"]
    by simp
qed

text \<open>
  C8: a write under an existing \<open>UserID\<close> replaces the record. After a POST of
  \<open>(user_id, a)\<close> and then a POST of \<open>(user_id, b)\<close> the table holds
  \<^verbatim>\<open>{"UserID": user_id, "Name": b}\<close> under \<open>user_id\<close> and a GET with that id returns it
  with status 200; and posting \<open>(user_id, a)\<close> a second time leaves the content of the
  table as the first POST left it. The instance of the specification is \<open>user_id = "1"\<close>,
  \<open>a = "A"\<close>, \<open>b = "B"\<close>.
\<close>

theorem repeated_write_overwrites:
  assumes "get_method event_a = Inr (PStr ''POST'')"
    and "subscript event_a ''body'' = Inr (PStr text_a)"
    and "json_loads env text_a = Inr parsed_a"
    and "subscript parsed_a ''user_id'' = Inr (PStr u)"
    and "subscript parsed_a ''name'' = Inr (PStr a)"
    and "get_method event_b = Inr (PStr ''POST'')"
    and "subscript event_b ''body'' = Inr (PStr text_b)"
    and "json_loads env text_b = Inr parsed_b"
    and "subscript parsed_b ''user_id'' = Inr (PStr u)"
    and "subscript parsed_b ''name'' = Inr (PStr b)"
    and "u \<noteq> []"
    and "store_fault env (PutItem (user_item u a)) = None"
    and "store_fault env (PutItem (user_item u b)) = None"
    and "get_method get_event = Inr (PStr ''GET'')"
    and "subscript get_event ''queryStringParameters'' = Inr params"
    and "subscript params ''id'' = Inr (PStr u)"
    and "store_fault env (GetItem [(''UserID'', PStr u)]) = None"
  shows "(let t1 = snd (lambda_handler env tbl event_a ctx);
              t2 = snd (lambda_handler env t1 event_b ctx);
              t1' = snd (lambda_handler env t1 event_a ctx)
          in fst (lambda_handler env t2 get_event ctx) =
               Inr \<lparr>statusCode = 200,
                    body = ''{\"UserID\": '' @ json_dumps_str u @ '', \"Name\": '' @ json_dumps_str b @ ''}''\<rparr>
             \<and> items t2 u = Some (PDict [(''UserID'', PStr u), (''Name'', PStr b)])
             \<and> items t1' = items t1)"
proof -
  note post_a = post_accepted [OF assms(1-5) assms(11,12)]
  note post_b = post_accepted [OF assms(6-10) assms(11,13)]
  let ?t1 = "snd (lambda_handler env tbl event_a ctx)"
  let ?t2 = "snd (lambda_handler env ?t1 event_b ctx)"
  let ?t1' = "snd (lambda_handler env ?t1 event_a ctx)"
  have stored: "items ?t2 u = Some (PDict (user_item u b))"
    by (simp add: post_b)
  have same: "items ?t1' = items ?t1"
    by (simp add: post_a)
  from get_stored_user [OF assms(14-16) assms(11) assms(17) stored]
  show ?thesis
    using stored same by (simp add: Let_def user_item_def)
qed

theorem repeated_write_overwrites_witness:
  "get_method (post_request ''{\"user_id\": \"1\", \"name\": \"A\"}'') = Inr (PStr ''POST'')
   \<and> get_method (post_request ''{\"user_id\": \"1\", \"name\": \"B\"}'') = Inr (PStr ''POST'')
   \<and> get_method (get_request ''1'') = Inr (PStr ''GET'')
   \<and> (let t1 = snd (lambda_handler sample_env empty_table
                       (post_request ''{\"user_id\": \"1\", \"name\": \"A\"}'') ());
            t2 = snd (lambda_handler sample_env t1
                       (post_request ''{\"user_id\": \"1\", \"name\": \"B\"}'') ());
            t1' = snd (lambda_handler sample_env t1
                       (post_request ''{\"user_id\": \"1\", \"name\": \"A\"}'') ())
        in fst (lambda_handler sample_env t2 (get_request ''1'') ()) =
             Inr \<lparr>statusCode = 200, body = ''{\"UserID\": \"1\", \"Name\": \"B\"}''\<rparr>
           \<and> items t2 ''1'' = Some (PDict [(''UserID'', PStr ''1''), (''Name'', PStr ''B'')])
           \<and> items t1' = items t1)"
proof -
  let ?text_a = "''{\"user_id\": \"1\", \"name\": \"A\"}''"
  let ?text_b = "''{\"user_id\": \"1\", \"name\": \"B\"}''"
  let ?parsed_a = "PDict [(''user_id'', PStr ''1''), (''name'', PStr ''A'')]"
  let ?parsed_b = "PDict [(''user_id'', PStr ''1''), (''name'', PStr ''B'')]"
  have ua: "subscript ?parsed_a ''user_id'' = Inr (PStr ''1'')" by simp
  have na: "subscript ?parsed_a ''name'' = Inr (PStr ''A'')" by simp
  have ub: "subscript ?parsed_b ''user_id'' = Inr (PStr ''1'')" by simp
  have nb: "subscript ?parsed_b ''name'' = Inr (PStr ''B'')" by simp
  have k: "''1'' \<noteq> []" by simp
  have d: "json_dumps_str ''1'' = ''\"1\"''" "json_dumps_str ''B'' = ''\"B\"''" by code_simp+
  show ?thesis
    using sample_post_facts(1) [of ?text_a] sample_post_facts(1) [of ?text_b]
      sample_get_facts(1) [of "''1''"] d
      repeated_write_overwrites
        [OF sample_post_facts [of ?text_a] sample_loads_A ua na
            sample_post_facts [of ?text_b] sample_loads_B ub nb k
            sample_no_fault sample_no_fault sample_get_facts [of "''1''"] sample_no_fault,
         where tbl = empty_table and ctx = "()"]
    by (simp add: Let_def)
qed

end
